theory Spec2Isabelle
  imports Complex_Main "HOL-Library.Char_ord" "HOL-Library.List_Lexorder"
    "HOL-Library.Product_Lexorder"
begin

section \<open>The expense tracker of \<^verbatim>\<open>app.py\<close>\<close>

text \<open>
  The script reads one CSV export into a pandas data frame, cleans it, derives the
  columns \<^verbatim>\<open>Type\<close>, \<^verbatim>\<open>Category\<close> and \<^verbatim>\<open>YearMonth\<close>, and computes totals, a monthly series,
  a per-category series, the overspending table and the advice list.

  Conventions of the embedding:
  \<^item> Python strings are \<open>string\<close>s holding the UTF-8 bytes of the text. Substring tests
    on valid UTF-8 agree with substring tests on code points.
  \<^item> Library calls whose result the script does not fix are parameters of the model:
    \<^verbatim>\<open>str.lower\<close> (Unicode lower-casing), \<^verbatim>\<open>pd.to_datetime\<close>, Python's \<^verbatim>\<open>float\<close>, the pie chart
    call of matplotlib, and in the overspending detector the \<open>float64\<close> mean and product.
    A theorem about the script holds for every value of these parameters.
  \<^item> A \<open>float64\<close> value is the real number it denotes; infinities and the sign of zero
    are outside the model, NaN is the value \<open>None\<close> of an option. The sums of phase 4
    are written as exact sums: they are what the script computes up to \<open>float64\<close>
    rounding, and exactly so wherever every partial sum is a \<open>float64\<close> value.
  \<^item> Exceptions are values of type \<open>error\<close>; a computation that may raise returns
    \<open>error + 'a\<close>.
\<close>

subsection \<open>Phase 3: \<^verbatim>\<open>categorize\<close>\<close>

text \<open>Python's \<^verbatim>\<open>sub in s\<close> on strings: \<open>sub\<close> occurs in \<open>s\<close> as a contiguous block.\<close>

fun starts_with :: "string \<Rightarrow> string \<Rightarrow> bool" where
  "starts_with [] s = True"
| "starts_with (a # sub) [] = False"
| "starts_with (a # sub) (c # s) = (a = c \<and> starts_with sub s)"

fun str_in :: "string \<Rightarrow> string \<Rightarrow> bool" where
  "str_in sub [] = (sub = [])"
| "str_in sub (c # s) = (starts_with sub (c # s) \<or> str_in sub s)"

text \<open>
  Lines 23 to 38. \<open>str_lower\<close> is Python's \<^verbatim>\<open>str.lower\<close> of line 24, which lower-cases
  every cased Unicode character.
\<close>

definition categorize :: "(string \<Rightarrow> string) \<Rightarrow> string \<Rightarrow> string" where
  "categorize str_lower description0 =
     (let description = str_lower description0 in
      if str_in ''zomato'' description \<or> str_in ''swiggy'' description
         \<or> str_in ''restaurant'' description then ''Food''
      else if str_in ''uber'' description \<or> str_in ''ola'' description
         \<or> str_in ''fuel'' description \<or> str_in ''petrol'' description then ''Transport''
      else if str_in ''electricity'' description \<or> str_in ''bill'' description
         \<or> str_in ''internet'' description then ''Utilities''
      else if str_in ''amazon'' description \<or> str_in ''flipkart'' description
         \<or> str_in ''shopping'' description \<or> str_in ''big bazaar'' description
         then ''Shopping''
      else if str_in ''salary'' description \<or> str_in ''income'' description then ''Salary''
      else if str_in ''netflix'' description then ''Entertainment''
      else ''Other'')"

text \<open>
  The taxonomy as the specification words it: an ordered list of labelled keyword groups,
  the first group with a keyword occurring in the text decides, \<open>Other\<close> is the default.
\<close>

definition taxonomy :: "(string \<times> string list) list" where
  "taxonomy =
     [(''Food'', [''zomato'', ''swiggy'', ''restaurant'']),
      (''Transport'', [''uber'', ''ola'', ''fuel'', ''petrol'']),
      (''Utilities'', [''electricity'', ''bill'', ''internet'']),
      (''Shopping'', [''amazon'', ''flipkart'', ''shopping'', ''big bazaar'']),
      (''Salary'', [''salary'', ''income'']),
      (''Entertainment'', [''netflix''])]"

definition labels :: "string list" where
  "labels = map fst taxonomy @ [''Other'']"

definition group_matches :: "string \<Rightarrow> string \<times> string list \<Rightarrow> bool" where
  "group_matches text g = list_ex (\<lambda>k. str_in k text) (snd g)"

definition first_match :: "string \<Rightarrow> string" where
  "first_match text =
     (case find (group_matches text) taxonomy of
        Some g \<Rightarrow> fst g
      | None \<Rightarrow> ''Other'')"

subsection \<open>Phases 1 and 2: the data frame and its cleaning\<close>

text \<open>
  A cell of the frame that \<^verbatim>\<open>pd.read_csv\<close> returns is missing (\<open>NA\<close>, pandas' NaN), a
  number or a text. A frame has its column names and its rows; a row gives the cell of
  every column name (what it gives outside \<open>columns\<close> is never read).
\<close>

datatype cell = NA | Num real | Str string

record frame =
  columns :: "string list"
  rows :: "(string \<Rightarrow> cell) list"

datatype error =
    KeyError string
  | ValueError string
  | AttributeError
  | NaN_amount
  | PieError

text \<open>
  A parsed date is year, month, day. The script's \<^verbatim>\<open>YearMonth\<close> is the text \<^verbatim>\<open>YYYY-MM\<close> of
  the month; the model keeps the pair of year and month, whose order is the order of
  those texts for the four-digit years a pandas timestamp can hold. \<^verbatim>\<open>Type\<close> and \<^verbatim>\<open>Category\<close>
  stay the texts the script stores.
\<close>

type_synonym date = "nat \<times> nat \<times> nat"

type_synonym year_month = "nat \<times> nat"

record txn =
  Date :: date
  Description :: string
  Amount :: real
  Type :: string
  Category :: string
  YearMonth :: year_month

text \<open>Line 14, \<^verbatim>\<open>df.dropna(inplace=True)\<close>: no \<^verbatim>\<open>subset\<close>, so every column counts.\<close>

definition dropna :: "frame \<Rightarrow> frame" where
  "dropna df = df\<lparr>rows := filter (\<lambda>r. list_all (\<lambda>c. r c \<noteq> NA) (columns df)) (rows df)\<rparr>"

text \<open>
  Line 17, \<^verbatim>\<open>pd.to_datetime(df['Date'], errors='coerce')\<close>. The parser of pandas is a
  parameter \<open>to_datetime\<close>: it sees the whole column (pandas infers one format from
  it) and the cell, and gives the calendar date or \<open>None\<close> for NaT. Line 18 drops the
  rows whose date is NaT.
\<close>

definition parse_dates ::
  "(cell list \<Rightarrow> cell \<Rightarrow> date option) \<Rightarrow> frame \<Rightarrow> error + ((string \<Rightarrow> cell) \<times> date) list"
where
  "parse_dates to_datetime df =
     (if ''Date'' \<notin> set (columns df) then Inl (KeyError ''Date'')
      else let col = map (\<lambda>r. r ''Date'') (rows df) in
        Inr (concat (map (\<lambda>r. case to_datetime col (r ''Date'') of
                                 None \<Rightarrow> []
                               | Some d \<Rightarrow> [(r, d)]) (rows df))))"

text \<open>
  Line 19, \<^verbatim>\<open>df['Amount'].astype(float)\<close>: a number stays, a text goes through Python's
  \<^verbatim>\<open>float\<close> (the parameter \<open>py_float\<close>, \<open>None\<close> where \<^verbatim>\<open>float\<close> raises), and the first text
  that does not convert raises \<^verbatim>\<open>ValueError\<close> for the whole column. A missing amount
  would stay NaN; line 14 has removed such rows, and the model marks the case
  \<open>NaN_amount\<close> (never returned, see \<open>load_no_NaN_amount\<close>).
\<close>

fun mapM :: "('a \<Rightarrow> error + 'b) \<Rightarrow> 'a list \<Rightarrow> error + 'b list" where
  "mapM f [] = Inr []"
| "mapM f (x # xs) =
     (case f x of
        Inl e \<Rightarrow> Inl e
      | Inr y \<Rightarrow> (case mapM f xs of Inl e \<Rightarrow> Inl e | Inr ys \<Rightarrow> Inr (y # ys)))"

fun astype_float :: "(string \<Rightarrow> real option) \<Rightarrow> cell \<Rightarrow> error + real" where
  "astype_float py_float (Num x) = Inr x"
| "astype_float py_float (Str s) =
     (case py_float s of None \<Rightarrow> Inl (ValueError s) | Some x \<Rightarrow> Inr x)"
| "astype_float py_float NA = Inl NaN_amount"

text \<open>
  Line 40, \<^verbatim>\<open>df['Description'].apply(categorize)\<close>: \<^verbatim>\<open>categorize\<close> calls \<^verbatim>\<open>.lower()\<close>, which
  only a text has; a number or NaN raises \<^verbatim>\<open>AttributeError\<close>.
\<close>

fun apply_categorize :: "(string \<Rightarrow> string) \<Rightarrow> cell \<Rightarrow> error + (string \<times> string)" where
  "apply_categorize str_lower (Str s) = Inr (s, categorize str_lower s)"
| "apply_categorize str_lower (Num x) = Inl AttributeError"
| "apply_categorize str_lower NA = Inl AttributeError"

definition type_of_amount :: "real \<Rightarrow> string" where
  "type_of_amount x = (if x > 0 then ''Income'' else ''Expense'')"

definition to_period_M :: "date \<Rightarrow> year_month" where
  "to_period_M d = (fst d, fst (snd d))"

definition mk_txn :: "date \<Rightarrow> real \<Rightarrow> string \<times> string \<Rightarrow> txn" where
  "mk_txn d x dc =
     \<lparr>Date = d, Description = fst dc, Amount = x, Type = type_of_amount x,
      Category = snd dc, YearMonth = to_period_M d\<rparr>"

text \<open>
  Lines 13 to 41 in the order the script runs them. Nothing is shown to the user before
  line 43, so an exception here leaves no output behind.
\<close>

definition load ::
  "(string \<Rightarrow> string) \<Rightarrow> (cell list \<Rightarrow> cell \<Rightarrow> date option) \<Rightarrow> (string \<Rightarrow> real option) \<Rightarrow>
     frame \<Rightarrow> error + txn list"
where
  "load str_lower to_datetime py_float raw =
     (case parse_dates to_datetime (dropna raw) of
        Inl e \<Rightarrow> Inl e
      | Inr dated \<Rightarrow>
          if ''Amount'' \<notin> set (columns raw) then Inl (KeyError ''Amount'')
          else (case mapM (\<lambda>rd. astype_float py_float (fst rd ''Amount'')) dated of
                  Inl e \<Rightarrow> Inl e
                | Inr amounts \<Rightarrow>
                    if ''Description'' \<notin> set (columns raw) then Inl (KeyError ''Description'')
                    else (case mapM (\<lambda>rd. apply_categorize str_lower (fst rd ''Description''))
                                 dated of
                            Inl e \<Rightarrow> Inl e
                          | Inr cats \<Rightarrow>
                              Inr (map (\<lambda>((rd, x), dc). mk_txn (snd rd) x dc)
                                     (zip (zip dated amounts) cats)))))"

subsection \<open>Phase 4: totals and series\<close>

definition total_income :: "txn list \<Rightarrow> real" where
  "total_income df = sum_list (map Amount (filter (\<lambda>r. Type r = ''Income'') df))"

definition total_expense :: "txn list \<Rightarrow> real" where
  "total_expense df = - sum_list (map Amount (filter (\<lambda>r. Type r = ''Expense'') df))"

definition balance :: "txn list \<Rightarrow> real" where
  "balance df = total_income df - total_expense df"

definition expense_df :: "txn list \<Rightarrow> txn list" where
  "expense_df df = filter (\<lambda>r. Type r = ''Expense'') df"

text \<open>
  \<^verbatim>\<open>groupby(key)['Amount'].sum()\<close>: one entry per key that occurs, in ascending key order,
  holding the sum of the amounts of the rows with that key.
\<close>

definition groupby_sum :: "(txn \<Rightarrow> 'k::linorder) \<Rightarrow> txn list \<Rightarrow> ('k \<times> real) list" where
  "groupby_sum key df =
     map (\<lambda>k. (k, sum_list (map Amount (filter (\<lambda>r. key r = k) df))))
       (sort (remdups (map key df)))"

text \<open>Unary minus on a series negates every value and keeps the index.\<close>

definition neg :: "('k \<times> real) list \<Rightarrow> ('k \<times> real) list" where
  "neg s = map (\<lambda>kv. (fst kv, - snd kv)) s"

text \<open>
  \<^verbatim>\<open>sort_values()\<close>, ascending. On the at most seven entries of a category series numpy
  sorts by insertion, which keeps equal values in index order, as \<open>sort_key\<close> does.
\<close>

definition sort_values :: "('k \<times> real) list \<Rightarrow> ('k \<times> real) list" where
  "sort_values s = sort_key snd s"

definition monthly_expense :: "txn list \<Rightarrow> (year_month \<times> real) list" where
  "monthly_expense df = neg (groupby_sum YearMonth (expense_df df))"

definition category_sum :: "txn list \<Rightarrow> (string \<times> real) list" where
  "category_sum df = neg (sort_values (groupby_sum Category (expense_df df)))"

subsection \<open>Phase 5: overspending prediction\<close>

text \<open>
  Lines 80 and 81 in exact arithmetic: \<^verbatim>\<open>Series.mean()\<close>, NaN (\<open>None\<close>) on the empty series,
  and the product with 1.2.
\<close>

definition mean :: "real list \<Rightarrow> real option" where
  "mean xs = (if xs = [] then None else Some (sum_list xs / real (length xs)))"

definition threshold :: "(year_month \<times> real) list \<Rightarrow> real option" where
  "threshold monthly = map_option (\<lambda>avg_expense. avg_expense * 1.2) (mean (map snd monthly))"

text \<open>A comparison with NaN is false.\<close>

definition gt_float :: "real \<Rightarrow> real option \<Rightarrow> bool" where
  "gt_float x t = (case t of None \<Rightarrow> False | Some y \<Rightarrow> x > y)"

definition overspending_risk :: string where
  "overspending_risk = [CHR 0xF0, CHR 0x9F, CHR 0x94, CHR 0xB4] @ '' Overspending Risk''"

definition within_budget :: string where
  "within_budget = [CHR 0xF0, CHR 0x9F, CHR 0x9F, CHR 0xA2] @ '' Within Budget''"

definition status :: "real option \<Rightarrow> real \<Rightarrow> string" where
  "status t x = (if gt_float x t then overspending_risk else within_budget)"

definition prediction_df :: "(year_month \<times> real) list \<Rightarrow> (year_month \<times> real \<times> string) list" where
  "prediction_df monthly =
     map (\<lambda>me. (fst me, snd me, status (threshold monthly) (snd me))) monthly"

text \<open>
  Lines 80 to 87 as \<open>float64\<close> computes them. \<open>series_mean\<close> is \<^verbatim>\<open>Series.mean\<close> of pandas
  (\<open>None\<close> for NaN) and \<open>times_1_2\<close> is the \<open>float64\<close> product of a value with the literal
  \<^verbatim>\<open>1.2\<close>; both round, so they are parameters. The comparison of line 86 is exact on
  \<open>float64\<close> values. \<open>threshold\<close> and \<open>prediction_df\<close> above are these functions at the
  exact mean and the exact product (\<open>detector_exact\<close>).
\<close>

definition threshold_f64 ::
  "(real list \<Rightarrow> real option) \<Rightarrow> (real \<Rightarrow> real) \<Rightarrow> (year_month \<times> real) list \<Rightarrow> real option"
where
  "threshold_f64 series_mean times_1_2 monthly =
     map_option (\<lambda>avg_expense. times_1_2 avg_expense) (series_mean (map snd monthly))"

definition prediction_df_f64 ::
  "(real list \<Rightarrow> real option) \<Rightarrow> (real \<Rightarrow> real) \<Rightarrow> (year_month \<times> real) list \<Rightarrow>
     (year_month \<times> real \<times> string) list"
where
  "prediction_df_f64 series_mean times_1_2 monthly =
     map (\<lambda>me. (fst me, snd me,
            status (threshold_f64 series_mean times_1_2 monthly) (snd me))) monthly"

subsection \<open>Phase 6: budget advice\<close>

definition category_expense :: "txn list \<Rightarrow> (string \<times> real) list" where
  "category_expense df = neg (sort_values (groupby_sum Category (expense_df df)))"

definition top_categories :: "txn list \<Rightarrow> (string \<times> real) list" where
  "top_categories df = take 3 (category_expense df)"

definition food_advice :: string where
  "food_advice = [CHR 0xF0, CHR 0x9F, CHR 0x8D, CHR 0x94] @ '' You''
     @ [CHR 0xE2, CHR 0x80, CHR 0x99]
     @ ''re spending a lot on food. Try cooking at home more often or setting a monthly dining budget.''"

definition shopping_advice :: string where
  "shopping_advice = [CHR 0xF0, CHR 0x9F, CHR 0x9B, CHR 0x8D] @ [CHR 0xEF, CHR 0xB8, CHR 0x8F]
     @ '' High shopping bills detected. Consider limiting impulse buys or setting a wishlist before shopping.''"

definition transport_advice :: string where
  "transport_advice = [CHR 0xF0, CHR 0x9F, CHR 0x9A, CHR 0x97]
     @ '' Transport costs are high. Try carpooling, using public transport, or optimizing your routes.''"

definition utilities_advice :: string where
  "utilities_advice = [CHR 0xF0, CHR 0x9F, CHR 0x92, CHR 0xA1]
     @ '' Utilities seem high. Consider energy-saving habits or reviewing your internet/electricity plans.''"

definition entertainment_advice :: string where
  "entertainment_advice = [CHR 0xF0, CHR 0x9F, CHR 0x93, CHR 0xBA]
     @ '' Subscriptions and entertainment are adding up. Cancel unused subscriptions or switch to cheaper plans.''"

definition generic_advice :: "string \<Rightarrow> string" where
  "generic_advice category = [CHR 0xF0, CHR 0x9F, CHR 0x92, CHR 0xA1] @ '' Spending on **''
     @ category @ ''** is significant. Try to review if all those purchases were essential.''"

definition advice_for :: "string \<Rightarrow> string" where
  "advice_for category =
     (if category = ''Food'' then food_advice
      else if category = ''Shopping'' then shopping_advice
      else if category = ''Transport'' then transport_advice
      else if category = ''Utilities'' then utilities_advice
      else if category = ''Entertainment'' then entertainment_advice
      else generic_advice category)"

definition advice :: "txn list \<Rightarrow> string list" where
  "advice df = map (\<lambda>ce. advice_for (fst ce)) (top_categories df)"

subsection \<open>The whole run\<close>

record dashboard =
  ledger :: "txn list"
  income :: real
  expense :: real
  net_balance :: real
  monthly :: "(year_month \<times> real) list"
  by_category :: "(string \<times> real) list"
  budget_threshold :: "real option"
  prediction :: "(year_month \<times> real \<times> string) list"
  top :: "(string \<times> real) list"
  tips :: "string list"

definition analyse :: "txn list \<Rightarrow> dashboard" where
  "analyse df =
     \<lparr>ledger = df, income = total_income df, expense = total_expense df,
      net_balance = balance df, monthly = monthly_expense df, by_category = category_sum df,
      budget_threshold = threshold (monthly_expense df),
      prediction = prediction_df (monthly_expense df),
      top = top_categories df, tips = advice df\<rparr>"

text \<open>
  The run in the order of the script. An exception of lines 13 to 41 ends it before
  anything is shown. Lines 43 to 66 then show the ledger, the three totals and the monthly
  chart. Line 74 draws the pie chart of the category series: \<open>pie_raises\<close> tells for which
  wedge sizes that call of matplotlib raises, and when it does the run ends there, before
  the overspending table and the advice of lines 80 to 120 are made (\<open>PieError\<close>).
\<close>

definition run ::
  "(real list \<Rightarrow> bool) \<Rightarrow> (string \<Rightarrow> string) \<Rightarrow> (cell list \<Rightarrow> cell \<Rightarrow> date option) \<Rightarrow>
     (string \<Rightarrow> real option) \<Rightarrow> frame \<Rightarrow> error + dashboard"
where
  "run pie_raises str_lower to_datetime py_float raw =
     (case load str_lower to_datetime py_float raw of
        Inl e \<Rightarrow> Inl e
      | Inr df \<Rightarrow>
          if pie_raises (map snd (category_sum df)) then Inl PieError
          else Inr (analyse df))"

subsection \<open>Sample instances of the library parameters\<close>

text \<open>
  The theorems below hold for every \<open>str_lower\<close>, \<open>to_datetime\<close>, \<open>py_float\<close> and
  \<open>pie_raises\<close>. The worked examples need concrete ones, which agree with the libraries on
  the inputs the examples use: \<open>ascii_lower\<close> lower-cases the letters A to Z, as
  \<^verbatim>\<open>str.lower\<close> does on ASCII text; \<open>iso_date\<close> reads \<^verbatim>\<open>YYYY-MM-DD\<close> texts; \<open>dec_float\<close>
  reads optionally signed digit strings and rejects \<^verbatim>\<open>abc\<close>; \<open>zero_total_pie\<close> raises on
  wedge sizes that add up to zero, the empty series among them, as the matplotlib
  releases do that refuse a pie whose wedge sizes are all zero.
\<close>

definition ascii_lower_char :: "char \<Rightarrow> char" where
  "ascii_lower_char c =
     (case map_of (zip ''ABCDEFGHIJKLMNOPQRSTUVWXYZ'' ''abcdefghijklmnopqrstuvwxyz'') c of
        Some l \<Rightarrow> l
      | None \<Rightarrow> c)"

definition ascii_lower :: "string \<Rightarrow> string" where
  "ascii_lower s = map ascii_lower_char s"

definition zero_total_pie :: "real list \<Rightarrow> bool" where
  "zero_total_pie sizes = (sum_list sizes = 0)"


definition digit_val :: "char \<Rightarrow> nat option" where
  "digit_val c = map_of (zip ''0123456789'' [0, 1, 2, 3, 4, 5, 6, 7, 8, 9]) c"

fun digits_acc :: "nat \<Rightarrow> string \<Rightarrow> nat option" where
  "digits_acc n [] = Some n"
| "digits_acc n (c # s) =
     (case digit_val c of None \<Rightarrow> None | Some d \<Rightarrow> digits_acc (10 * n + d) s)"

definition nat_of_digits :: "string \<Rightarrow> nat option" where
  "nat_of_digits s = (if s = [] then None else digits_acc 0 s)"

definition dec_float :: "string \<Rightarrow> real option" where
  "dec_float s =
     (case s of
        [] \<Rightarrow> None
      | c # t \<Rightarrow> if c = CHR ''-'' then map_option (\<lambda>n. - real n) (nat_of_digits t)
                 else map_option real (nat_of_digits s))"

definition iso_date :: "cell list \<Rightarrow> cell \<Rightarrow> date option" where
  "iso_date col c =
     (case c of
        Str s \<Rightarrow>
          if length s = 10 \<and> s ! 4 = CHR ''-'' \<and> s ! 7 = CHR ''-'' then
            (case (nat_of_digits (take 4 s), nat_of_digits (take 2 (drop 5 s)),
                   nat_of_digits (drop 8 s)) of
               (Some y, Some m, Some d) \<Rightarrow>
                 if 1 \<le> m \<and> m \<le> 12 \<and> 1 \<le> d \<and> d \<le> 31 then Some (y, m, d) else None
             | _ \<Rightarrow> None)
          else None
      | _ \<Rightarrow> None)"

text \<open>A row written as an association list; a column it does not list is missing.\<close>

definition row :: "(string \<times> cell) list \<Rightarrow> string \<Rightarrow> cell" where
  "row kvs c = (case map_of kvs c of None \<Rightarrow> NA | Some v \<Rightarrow> v)"

subsection \<open>Worked inputs\<close>

definition sample_frame :: frame where
  "sample_frame =
     \<lparr>columns = [''Date'', ''Description'', ''Amount''],
      rows =
        [row [(''Date'', Str ''2024-01-05''), (''Description'', Str ''Zomato order''),
              (''Amount'', Num (- 450))],
         row [(''Date'', Str ''2024-01-20''), (''Description'', Str ''Salary credit''),
              (''Amount'', Num 50000)],
         row [(''Date'', Str ''2024-02-03''), (''Description'', Str ''Uber ride''),
              (''Amount'', Num (- 200))],
         row [(''Date'', Str ''2024-02-10''), (''Description'', Str ''Fee waiver''),
              (''Amount'', Num 0)],
         row [(''Date'', Str ''2024-02-15''), (''Description'', Str ''Electricity bill''),
              (''Amount'', Num (- 300))]]\<rparr>"

definition sample_ledger :: "txn list" where
  "sample_ledger =
     [\<lparr>Date = (2024, 1, 5), Description = ''Zomato order'', Amount = - 450,
       Type = ''Expense'', Category = ''Food'', YearMonth = (2024, 1)\<rparr>,
      \<lparr>Date = (2024, 1, 20), Description = ''Salary credit'', Amount = 50000,
       Type = ''Income'', Category = ''Salary'', YearMonth = (2024, 1)\<rparr>,
      \<lparr>Date = (2024, 2, 3), Description = ''Uber ride'', Amount = - 200,
       Type = ''Expense'', Category = ''Transport'', YearMonth = (2024, 2)\<rparr>,
      \<lparr>Date = (2024, 2, 10), Description = ''Fee waiver'', Amount = 0,
       Type = ''Expense'', Category = ''Other'', YearMonth = (2024, 2)\<rparr>,
      \<lparr>Date = (2024, 2, 15), Description = ''Electricity bill'', Amount = - 300,
       Type = ''Expense'', Category = ''Utilities'', YearMonth = (2024, 2)\<rparr>]"



text \<open>The amounts arrive as texts when one of them is not a number.\<close>

definition bad_amount_frame :: frame where
  "bad_amount_frame =
     \<lparr>columns = [''Date'', ''Description'', ''Amount''],
      rows =
        [row [(''Date'', Str ''2024-01-05''), (''Description'', Str ''Zomato order''),
              (''Amount'', Str ''-450'')],
         row [(''Date'', Str ''2024-01-06''), (''Description'', Str ''Uber ride''),
              (''Amount'', Str ''abc'')]]\<rparr>"

text \<open>A fourth column \<^verbatim>\<open>Notes\<close> that the one row leaves empty.\<close>

definition notes_row :: "string \<Rightarrow> cell" where
  "notes_row =
     row [(''Date'', Str ''2024-01-05''), (''Description'', Str ''Zomato order''),
          (''Amount'', Num (- 450))]"

definition notes_frame :: frame where
  "notes_frame =
     \<lparr>columns = [''Date'', ''Description'', ''Amount'', ''Notes''], rows = [notes_row]\<rparr>"

definition no_description_frame :: frame where
  "no_description_frame =
     \<lparr>columns = [''Date'', ''Amount''],
      rows = [row [(''Date'', Str ''2024-01-05''), (''Amount'', Str ''abc'')]]\<rparr>"

definition description_missing_frame :: frame where
  "description_missing_frame =
     \<lparr>columns = [''Date'', ''Amount''],
      rows = [row [(''Date'', Str ''2024-01-05''), (''Amount'', Num (- 450))]]\<rparr>"

text \<open>One row without a date that parses, one row without an amount.\<close>

definition no_valid_rows_frame :: frame where
  "no_valid_rows_frame =
     \<lparr>columns = [''Date'', ''Description'', ''Amount''],
      rows =
        [row [(''Date'', Str ''yesterday''), (''Description'', Str ''Zomato order''),
              (''Amount'', Num (- 450))],
         row [(''Date'', Str ''2024-01-20''), (''Description'', Str ''Salary credit'')]]\<rparr>"


text \<open>The rows that the cleaning of lines 14 to 18 keeps, in their order.\<close>

definition kept_rows :: "(cell list \<Rightarrow> cell \<Rightarrow> date option) \<Rightarrow> frame \<Rightarrow> (string \<Rightarrow> cell) list" where
  "kept_rows to_datetime raw =
     filter (\<lambda>r. to_datetime (map (\<lambda>r. r ''Date'') (rows (dropna raw))) (r ''Date'') \<noteq> None)
       (rows (dropna raw))"

section \<open>Auxiliary lemmas\<close>

subsection \<open>Substrings\<close>

lemma starts_with_iff: "starts_with sub s \<longleftrightarrow> (\<exists>q. s = sub @ q)"
  by (induction sub s rule: starts_with.induct) auto

lemma str_in_iff: "str_in sub s \<longleftrightarrow> (\<exists>p q. s = p @ sub @ q)"
proof (induction s)
  case Nil
  then show ?case by auto
next
  case (Cons c s)
  show ?case
  proof
    assume "str_in sub (c # s)"
    then consider "starts_with sub (c # s)" | "str_in sub s" by auto
    then show "\<exists>p q. c # s = p @ sub @ q"
    proof cases
      case 1
      then obtain q where "c # s = sub @ q" by (auto simp: starts_with_iff)
      then have "c # s = [] @ sub @ q" by simp
      then show ?thesis by blast
    next
      case 2
      with Cons.IH obtain p q where "s = p @ sub @ q" by blast
      then have "c # s = (c # p) @ sub @ q" by simp
      then show ?thesis by blast
    qed
  next
    assume "\<exists>p q. c # s = p @ sub @ q"
    then obtain p q where pq: "c # s = p @ sub @ q" by blast
    show "str_in sub (c # s)"
    proof (cases p)
      case Nil
      with pq have "starts_with sub (c # s)" by (auto simp: starts_with_iff)
      then show ?thesis by simp
    next
      case (Cons a p')
      with pq have "s = p' @ sub @ q" by simp
      with Cons.IH have "str_in sub s" by blast
      then show ?thesis by simp
    qed
  qed
qed

lemma categorize_first_match: "categorize lw d = first_match (lw d)"
  by (simp add: categorize_def first_match_def taxonomy_def group_matches_def Let_def)

lemma categorize_label: "categorize lw d \<in> set labels"
  by (simp add: categorize_def labels_def taxonomy_def Let_def)

lemma labels_eq: "labels = [''Food'', ''Transport'', ''Utilities'', ''Shopping'', ''Salary'', ''Entertainment'', ''Other'']"
  by (simp add: labels_def taxonomy_def)

subsection \<open>The loader\<close>

lemma mapM_InrD: "mapM f xs = Inr ys \<Longrightarrow> list_all2 (\<lambda>x y. f x = Inr y) xs ys"
  by (induction xs arbitrary: ys) (auto split: sum.splits)

lemma mapM_InlD: "mapM f xs = Inl e \<Longrightarrow> \<exists>x\<in>set xs. f x = Inl e"
  by (induction xs) (auto split: sum.splits)

lemma mapM_length: "mapM f xs = Inr ys \<Longrightarrow> length ys = length xs"
  by (drule mapM_InrD) (simp add: list_all2_lengthD)

lemma load_InrD:
  assumes "load lw td pf raw = Inr df"
  shows "\<exists>dated amounts cats.
    parse_dates td (dropna raw) = Inr dated \<and>
    ''Amount'' \<in> set (columns raw) \<and>
    mapM (\<lambda>rd. astype_float pf (fst rd ''Amount'')) dated = Inr amounts \<and>
    ''Description'' \<in> set (columns raw) \<and>
    mapM (\<lambda>rd. apply_categorize lw (fst rd ''Description'')) dated = Inr cats \<and>
    df = map (\<lambda>((rd, x), dc). mk_txn (snd rd) x dc) (zip (zip dated amounts) cats)"
  using assms unfolding load_def
  by (auto split: sum.splits if_splits)

lemma load_Type:
  assumes "load lw td pf raw = Inr df" and "r \<in> set df"
  shows "Type r = type_of_amount (Amount r)"
proof -
  from load_InrD[OF assms(1)] obtain dated amounts cats where
    "parse_dates td (dropna raw) = Inr dated" and
    "df = map (\<lambda>((rd, x), dc). mk_txn (snd rd) x dc) (zip (zip dated amounts) cats)"
    by blast
  with assms(2) show ?thesis by (auto simp: mk_txn_def)
qed


subsection \<open>Sums by group\<close>




subsection \<open>The mean and the threshold\<close>



text \<open>The detector in exact arithmetic is the detector at the exact mean and product.\<close>

lemma detector_exact:
  "threshold ms = threshold_f64 mean (\<lambda>a. a * 1.2) ms"
  "prediction_df ms = prediction_df_f64 mean (\<lambda>a. a * 1.2) ms"
  by (simp_all add: threshold_def threshold_f64_def prediction_df_def prediction_df_f64_def)

subsection \<open>The category series\<close>







subsection \<open>What the cleaning keeps\<close>

lemma dropna_rows_complete:
  "r \<in> set (rows (dropna raw)) \<Longrightarrow> c \<in> set (columns raw) \<Longrightarrow> r c \<noteq> NA"
  by (auto simp: dropna_def list_all_iff)

lemma parse_dates_kept:
  assumes "parse_dates td (dropna raw) = Inr dated"
  shows "map fst dated = kept_rows td raw"
    and "\<forall>rd\<in>set dated. td (map (\<lambda>r. r ''Date'') (rows (dropna raw))) (fst rd ''Date'') = Some (snd rd)"
proof -
  let ?col = "map (\<lambda>r. r ''Date'') (rows (dropna raw))"
  have shape: "map fst (concat (map (\<lambda>r. case td col (r ''Date'') of None \<Rightarrow> [] | Some d \<Rightarrow> [(r, d)]) xs))
      = filter (\<lambda>r. td col (r ''Date'') \<noteq> None) xs" for col xs
    by (induction xs) (auto split: option.splits)
  from assms have dated: "dated =
      concat (map (\<lambda>r. case td ?col (r ''Date'') of None \<Rightarrow> [] | Some d \<Rightarrow> [(r, d)]) (rows (dropna raw)))"
    by (simp add: parse_dates_def Let_def split: if_splits)
  show "map fst dated = kept_rows td raw"
    unfolding dated kept_rows_def by (rule shape)
  show "\<forall>rd\<in>set dated. td ?col (fst rd ''Date'') = Some (snd rd)"
    unfolding dated by (auto split: option.splits)
qed

lemma kept_rows_complete:
  "r \<in> set (kept_rows td raw) \<Longrightarrow> c \<in> set (columns raw) \<Longrightarrow> r c \<noteq> NA"
  by (auto simp: kept_rows_def dest: dropna_rows_complete)

lemma load_no_NaN_amount: "load lw td pf raw \<noteq> Inl NaN_amount"
proof
  assume bad: "load lw td pf raw = Inl NaN_amount"
  then obtain dated where dated: "parse_dates td (dropna raw) = Inr dated"
    and col: "''Amount'' \<in> set (columns raw)"
    by (auto simp: load_def parse_dates_def Let_def split: sum.splits if_splits)
  from bad dated col have
    "mapM (\<lambda>rd. astype_float pf (fst rd ''Amount'')) dated = Inl NaN_amount
     \<or> mapM (\<lambda>rd. apply_categorize lw (fst rd ''Description'')) dated = Inl NaN_amount"
    by (auto simp: load_def split: sum.splits if_splits)
  then show False
  proof
    assume "mapM (\<lambda>rd. astype_float pf (fst rd ''Amount'')) dated = Inl NaN_amount"
    from mapM_InlD[OF this] obtain rd where rd: "rd \<in> set dated"
      "astype_float pf (fst rd ''Amount'') = Inl NaN_amount" by blast
    from rd(1) have "fst rd \<in> set (kept_rows td raw)"
      using parse_dates_kept(1)[OF dated] by (metis image_eqI set_map)
    then have "fst rd ''Amount'' \<noteq> NA" using col by (rule kept_rows_complete)
    with rd(2) show False
      by (cases "fst rd ''Amount''") (auto split: option.splits)
  next
    assume "mapM (\<lambda>rd. apply_categorize lw (fst rd ''Description'')) dated = Inl NaN_amount"
    from mapM_InlD[OF this] obtain rd where "rd \<in> set dated"
      "apply_categorize lw (fst rd ''Description'') = Inl NaN_amount" by blast
    then show False by (cases "fst rd ''Description''") auto
  qed
qed

lemma astype_float_error:
  "astype_float pf c = Inl e \<Longrightarrow> e = NaN_amount \<or> (\<exists>s. e = ValueError s)"
  by (cases c) (auto split: option.splits)

lemma load_rows:
  assumes "load lw td pf raw = Inr df"
  shows "list_all2 (\<lambda>r t. td (map (\<lambda>r. r ''Date'') (rows (dropna raw))) (r ''Date'') = Some (Date t)
             \<and> r ''Description'' = Str (Description t)
             \<and> astype_float pf (r ''Amount'') = Inr (Amount t)) (kept_rows td raw) df"
proof -
  let ?col = "map (\<lambda>r. r ''Date'') (rows (dropna raw))"
  from load_InrD[OF assms] obtain dated amounts cats where
    dated: "parse_dates td (dropna raw) = Inr dated" and
    am: "mapM (\<lambda>rd. astype_float pf (fst rd ''Amount'')) dated = Inr amounts" and
    ca: "mapM (\<lambda>rd. apply_categorize lw (fst rd ''Description'')) dated = Inr cats" and
    df: "df = map (\<lambda>((rd, x), dc). mk_txn (snd rd) x dc) (zip (zip dated amounts) cats)"
    by blast
  note am2 = mapM_InrD[OF am] and ca2 = mapM_InrD[OF ca]
  have la: "length amounts = length dated" and lc: "length cats = length dated"
    using mapM_length[OF am] mapM_length[OF ca] by simp_all
  have kept: "kept_rows td raw = map fst dated" using parse_dates_kept(1)[OF dated] by simp
  show ?thesis
    unfolding kept list_all2_conv_all_nth
  proof (intro conjI allI impI)
    show "length (map fst dated) = length df" using la lc by (simp add: df)
  next
    fix i assume "i < length (map fst dated)"
    then have i: "i < length dated" by simp
    then have dfi: "df ! i = mk_txn (snd (dated ! i)) (amounts ! i) (cats ! i)"
      using la lc by (simp add: df)
    from i have mem: "dated ! i \<in> set dated" by simp
    show "td ?col ((map fst dated ! i) ''Date'') = Some (Date (df ! i))"
      using parse_dates_kept(2)[OF dated] mem i by (simp add: dfi mk_txn_def)
    from ca2 i have c: "apply_categorize lw (fst (dated ! i) ''Description'') = Inr (cats ! i)"
      by (simp add: list_all2_conv_all_nth)
    show "(map fst dated ! i) ''Description'' = Str (Description (df ! i))"
    proof (cases "fst (dated ! i) ''Description''")
      case (Str s)
      with c have "cats ! i = (s, categorize lw s)" by simp
      with Str i show ?thesis by (simp add: dfi mk_txn_def)
    qed (use c in auto)
    from am2 i show "astype_float pf ((map fst dated ! i) ''Amount'') = Inr (Amount (df ! i))"
      by (simp add: list_all2_conv_all_nth dfi mk_txn_def)
  qed
qed

lemma kept_rows_filter:
  "kept_rows td raw = filter (\<lambda>r. list_all (\<lambda>c. r c \<noteq> NA) (columns raw)
       \<and> td (map (\<lambda>r. r ''Date'') (rows (dropna raw))) (r ''Date'') \<noteq> None) (rows raw)"
  by (simp add: kept_rows_def dropna_def)

lemma mapM_Inl_ex: "x \<in> set xs \<Longrightarrow> f x = Inl e \<Longrightarrow> \<exists>e'. mapM f xs = Inl e'"
proof (induction xs)
  case Nil
  then show ?case by simp
next
  case (Cons a xs)
  show ?case
  proof (cases "f a")
    case (Inl e0)
    then show ?thesis by simp
  next
    case (Inr y)
    with Cons.prems have "x \<in> set xs" by auto
    from Cons.IH[OF this Cons.prems(2)] obtain e' where "mapM f xs = Inl e'" by blast
    with Inr show ?thesis by simp
  qed
qed

lemma load_bad_amount:
  assumes "''Date'' \<in> set (columns raw)" and "''Amount'' \<in> set (columns raw)"
    and "r \<in> set (kept_rows td raw)" and "r ''Amount'' = Str s" and "pf s = None"
  shows "\<exists>s'. load lw td pf raw = Inl (ValueError s')"
proof -
  have cols: "columns (dropna raw) = columns raw" by (simp add: dropna_def)
  define dated where "dated = concat (map (\<lambda>r. case td (map (\<lambda>r. r ''Date'') (rows (dropna raw)))
      (r ''Date'') of None \<Rightarrow> [] | Some d \<Rightarrow> [(r, d)]) (rows (dropna raw)))"
  have dated: "parse_dates td (dropna raw) = Inr dated"
    using assms(1) by (simp add: parse_dates_def cols Let_def dated_def)
  have "set (kept_rows td raw) = fst ` set dated"
    using parse_dates_kept(1)[OF dated, symmetric] by simp
  with assms(3) obtain rd where rd: "rd \<in> set dated" "fst rd = r" by auto
  from rd(2) assms(4,5) have bad: "astype_float pf (fst rd ''Amount'') = Inl (ValueError s)"
    by simp
  from mapM_Inl_ex[OF rd(1), of "\<lambda>rd. astype_float pf (fst rd ''Amount'')", OF bad] obtain e where
    e: "mapM (\<lambda>rd. astype_float pf (fst rd ''Amount'')) dated = Inl e" by blast
  with dated assms(2) have l: "load lw td pf raw = Inl e" by (simp add: load_def)
  from mapM_InlD[OF e] obtain rd' where "rd' \<in> set dated"
    "astype_float pf (fst rd' ''Amount'') = Inl e" by blast
  from astype_float_error[OF this(2)] l load_no_NaN_amount[of lw td pf raw]
  show ?thesis by auto
qed

lemma load_no_rows:
  assumes "{''Date'', ''Description'', ''Amount''} \<subseteq> set (columns raw)"
    and "kept_rows td raw = []"
  shows "load lw td pf raw = Inr []"
proof -
  have cols: "columns (dropna raw) = columns raw" by (simp add: dropna_def)
  define dated where "dated = concat (map (\<lambda>r. case td (map (\<lambda>r. r ''Date'') (rows (dropna raw)))
      (r ''Date'') of None \<Rightarrow> [] | Some d \<Rightarrow> [(r, d)]) (rows (dropna raw)))"
  have dated: "parse_dates td (dropna raw) = Inr dated"
    using assms(1) by (simp add: parse_dates_def cols Let_def dated_def)
  from parse_dates_kept(1)[OF dated] assms(2) have "dated = []" by simp
  with dated assms(1) show ?thesis by (simp add: load_def)
qed

subsection \<open>The worked inputs, evaluated\<close>

lemma load_sample: "load ascii_lower iso_date dec_float sample_frame = Inr sample_ledger"
  by code_simp

lemma load_no_valid_rows: "load ascii_lower iso_date dec_float no_valid_rows_frame = Inr []"
  by code_simp

lemma kept_none: "kept_rows iso_date no_valid_rows_frame = []"
  by (simp add: kept_rows_def dropna_def no_valid_rows_frame_def row_def iso_date_def
      nat_of_digits_def digit_val_def)

lemma kept_description_missing:
  "kept_rows iso_date description_missing_frame =
     [row [(''Date'', Str ''2024-01-05''), (''Amount'', Num (- 450))]]"
  by (simp add: kept_rows_def dropna_def description_missing_frame_def row_def iso_date_def
      nat_of_digits_def digit_val_def)




section \<open>The claims\<close>

text \<open>
  C1. \<^verbatim>\<open>categorize\<close> is a total function from description texts to the seven labels Food,
  Transport, Utilities, Shopping, Salary, Entertainment, Other: whatever \<^verbatim>\<open>str.lower\<close>
  returns for the text, the function tests the keyword groups on it in the order of the
  taxonomy, returns the label of the first group one of whose keywords occurs in it, and
  Other when none does. Transport precedes Utilities: a description whose lower-cased
  text contains both \<^verbatim>\<open>uber\<close> and \<^verbatim>\<open>bill\<close> yields Transport, unless a keyword of Food, the
  one group before Transport, occurs in it, and then it yields Food by the same rule.
\<close>

theorem categorize_first_matching_group:
  "categorize lw d \<in> set labels
   \<and> labels = [''Food'', ''Transport'', ''Utilities'', ''Shopping'', ''Salary'',
                ''Entertainment'', ''Other'']
   \<and> categorize lw d = first_match (lw d)
   \<and> (str_in ''uber'' (lw d) \<and> str_in ''bill'' (lw d)
        \<and> \<not> group_matches (lw d) (''Food'', [''zomato'', ''swiggy'', ''restaurant''])
       \<longrightarrow> categorize lw d = ''Transport'')
   \<and> (str_in ''uber'' (lw d) \<and> str_in ''bill'' (lw d)
        \<and> group_matches (lw d) (''Food'', [''zomato'', ''swiggy'', ''restaurant''])
       \<longrightarrow> categorize lw d = ''Food'')"
proof -
  have t: "categorize lw d = ''Transport''"
    if "str_in ''uber'' (lw d)"
      and "\<not> group_matches (lw d) (''Food'', [''zomato'', ''swiggy'', ''restaurant''])"
    using that by (simp add: categorize_def group_matches_def Let_def)
  have f: "categorize lw d = ''Food''"
    if "group_matches (lw d) (''Food'', [''zomato'', ''swiggy'', ''restaurant''])"
    using that by (auto simp add: categorize_def group_matches_def Let_def)
  from t f show ?thesis
    using categorize_label[of lw d] labels_eq categorize_first_match[of lw d] by blast
qed

theorem categorize_first_matching_group_witness:
  "str_in ''uber'' (ascii_lower ''Uber bill'') \<and> str_in ''bill'' (ascii_lower ''Uber bill'')
   \<and> \<not> group_matches (ascii_lower ''Uber bill'')
         (''Food'', [''zomato'', ''swiggy'', ''restaurant''])
   \<and> categorize ascii_lower ''Uber bill'' = ''Transport''
   \<and> str_in ''uber'' (ascii_lower ''Zomato Uber bill'')
   \<and> str_in ''bill'' (ascii_lower ''Zomato Uber bill'')
   \<and> group_matches (ascii_lower ''Zomato Uber bill'')
         (''Food'', [''zomato'', ''swiggy'', ''restaurant''])
   \<and> categorize ascii_lower ''Zomato Uber bill'' = ''Food''"
proof -
  have u: "str_in ''uber'' (ascii_lower ''Uber bill'')"
    and b: "str_in ''bill'' (ascii_lower ''Uber bill'')"
    and n: "\<not> group_matches (ascii_lower ''Uber bill'')
         (''Food'', [''zomato'', ''swiggy'', ''restaurant''])"
    by (simp_all add: ascii_lower_def ascii_lower_char_def group_matches_def)
  have u': "str_in ''uber'' (ascii_lower ''Zomato Uber bill'')"
    and b': "str_in ''bill'' (ascii_lower ''Zomato Uber bill'')"
    and m': "group_matches (ascii_lower ''Zomato Uber bill'')
         (''Food'', [''zomato'', ''swiggy'', ''restaurant''])"
    by (simp_all add: ascii_lower_def ascii_lower_char_def group_matches_def)
  note t = categorize_first_matching_group [of ascii_lower "''Uber bill''",
    THEN conjunct2, THEN conjunct2, THEN conjunct2, THEN conjunct1, THEN mp, OF conjI,
    OF u conjI, OF b n]
  note f = categorize_first_matching_group [of ascii_lower "''Zomato Uber bill''",
    THEN conjunct2, THEN conjunct2, THEN conjunct2, THEN conjunct2, THEN mp, OF conjI,
    OF u' conjI, OF b' m']
  from u b n t u' b' m' f show ?thesis by (intro conjI)
qed



text \<open>
  C3, at the failing input. A row whose Amount is not a number is not dropped: on a frame
  whose first row is valid (\<^verbatim>\<open>-450\<close>) and whose second row has the amount \<^verbatim>\<open>abc\<close>, line 19
  raises \<^verbatim>\<open>ValueError\<close> and the whole run ends without any result, the valid row included.
  The date column next to it is read with \<^verbatim>\<open>errors='coerce'\<close> and its bad rows are dropped.
  The same holds for every frame in which a row that the cleaning keeps has an amount text
  that does not convert (\<open>load_bad_amount\<close>).
\<close>

theorem non_numeric_amount_aborts:
  "(rows bad_amount_frame ! 0) ''Amount'' = Str ''-450'' \<and> dec_float ''-450'' = Some (- 450)
   \<and> (rows bad_amount_frame ! 1) ''Amount'' = Str ''abc'' \<and> dec_float ''abc'' = None
   \<and> run zero_total_pie ascii_lower iso_date dec_float bad_amount_frame = Inl (ValueError ''abc'')"
  by code_simp

text \<open>
  C4 (as amended). When the input has the three columns and the cleaning of lines 14 to 18
  removes every row (a missing value, or a date that does not parse), the loader returns
  the empty ledger, and total income, total expense and balance are 0, the monthly series
  and the category series are empty. The run then reaches the pie chart of line 74 with
  no wedge. Where matplotlib draws that chart, the run raises nothing and ends with an
  empty overspending table and an empty advice list, the NaN threshold (\<open>None\<close>) reaching
  no month's status, there being no month. Where matplotlib rejects it, the run ends at
  line 74 with that exception, before the overspending table and the advice.
\<close>

theorem empty_ledger_dashboard:
  "{''Date'', ''Description'', ''Amount''} \<subseteq> set (columns raw) \<and> kept_rows td raw = [] \<longrightarrow>
     load lw td pf raw = Inr []
     \<and> total_income [] = 0 \<and> total_expense [] = 0 \<and> balance [] = 0
     \<and> monthly_expense [] = [] \<and> category_sum [] = []
     \<and> (\<not> pie [] \<longrightarrow>
          run pie lw td pf raw =
            Inr \<lparr>ledger = [], income = 0, expense = 0, net_balance = 0, monthly = [],
                 by_category = [], budget_threshold = None, prediction = [], top = [],
                 tips = []\<rparr>)
     \<and> (pie [] \<longrightarrow> run pie lw td pf raw = Inl PieError)"
proof (intro impI)
  assume h: "{''Date'', ''Description'', ''Amount''} \<subseteq> set (columns raw) \<and> kept_rows td raw = []"
  then have l: "load lw td pf raw = Inr []"
    using load_no_rows[where raw = raw and td = td and lw = lw and pf = pf] by blast
  have c: "category_sum [] = []"
    by (simp add: category_sum_def expense_df_def groupby_sum_def neg_def sort_values_def)
  have z: "total_income [] = 0" "total_expense [] = 0" "balance [] = 0"
    "monthly_expense [] = []"
    by (simp_all add: total_income_def total_expense_def balance_def monthly_expense_def
        expense_df_def groupby_sum_def neg_def)
  have a: "analyse [] =
        \<lparr>ledger = [], income = 0, expense = 0, net_balance = 0, monthly = [],
         by_category = [], budget_threshold = None, prediction = [], top = [],
         tips = []\<rparr>"
    by (simp add: analyse_def z c threshold_def mean_def prediction_df_def top_categories_def
        category_expense_def advice_def expense_df_def groupby_sum_def neg_def
        sort_values_def)
  have ok: "run pie lw td pf raw =
        Inr \<lparr>ledger = [], income = 0, expense = 0, net_balance = 0, monthly = [],
             by_category = [], budget_threshold = None, prediction = [], top = [],
             tips = []\<rparr>" if "\<not> pie []"
    using that l a by (simp add: run_def c)
  have ko: "run pie lw td pf raw = Inl PieError" if "pie []"
    using that l by (simp add: run_def c)
  from l z c ok ko
  show "load lw td pf raw = Inr []
     \<and> total_income [] = 0 \<and> total_expense [] = 0 \<and> balance [] = 0
     \<and> monthly_expense [] = [] \<and> category_sum [] = []
     \<and> (\<not> pie [] \<longrightarrow>
          run pie lw td pf raw =
            Inr \<lparr>ledger = [], income = 0, expense = 0, net_balance = 0, monthly = [],
                 by_category = [], budget_threshold = None, prediction = [], top = [],
                 tips = []\<rparr>)
     \<and> (pie [] \<longrightarrow> run pie lw td pf raw = Inl PieError)"
    by blast
qed

theorem empty_ledger_dashboard_witness:
  "{''Date'', ''Description'', ''Amount''} \<subseteq> set (columns no_valid_rows_frame)
   \<and> kept_rows iso_date no_valid_rows_frame = []
   \<and> load ascii_lower iso_date dec_float no_valid_rows_frame = Inr []
   \<and> \<not> (\<lambda>sizes. False) ([] :: real list)
   \<and> run (\<lambda>sizes. False) ascii_lower iso_date dec_float no_valid_rows_frame =
       Inr \<lparr>ledger = [], income = 0, expense = 0, net_balance = 0, monthly = [],
            by_category = [], budget_threshold = None, prediction = [], top = [], tips = []\<rparr>
   \<and> zero_total_pie []
   \<and> run zero_total_pie ascii_lower iso_date dec_float no_valid_rows_frame = Inl PieError"
proof -
  have c: "{''Date'', ''Description'', ''Amount''} \<subseteq> set (columns no_valid_rows_frame)"
    by (simp add: no_valid_rows_frame_def)
  have n: "\<not> (\<lambda>sizes. False) ([] :: real list)" by simp
  have p: "zero_total_pie []" by (simp add: zero_total_pie_def)
  note t = empty_ledger_dashboard [where raw = no_valid_rows_frame and td = iso_date
    and lw = ascii_lower and pf = dec_float and pie = "\<lambda>sizes. False", THEN mp, OF conjI,
    OF c kept_none]
  note u = empty_ledger_dashboard [where raw = no_valid_rows_frame and td = iso_date
    and lw = ascii_lower and pf = dec_float and pie = zero_total_pie, THEN mp, OF conjI,
    OF c kept_none]
  have l: "load ascii_lower iso_date dec_float no_valid_rows_frame = Inr []"
    using t by (rule conjunct1)
  have r: "run (\<lambda>sizes. False) ascii_lower iso_date dec_float no_valid_rows_frame =
       Inr \<lparr>ledger = [], income = 0, expense = 0, net_balance = 0, monthly = [],
            by_category = [], budget_threshold = None, prediction = [], top = [], tips = []\<rparr>"
    using t n by blast
  have e: "run zero_total_pie ascii_lower iso_date dec_float no_valid_rows_frame = Inl PieError"
    using u p by blast
  from c kept_none l n r p e show ?thesis by (intro conjI)
qed

text \<open>
  C4 as it was stated fails. The cleaning leaves no row of \<open>no_valid_rows_frame\<close>, the
  category series is empty, and with a pie chart that rejects wedge sizes of total zero,
  as the one of current matplotlib does, the run ends with the exception of line 74: it
  raises, and it yields no overspending table and no advice list.
\<close>

theorem empty_pie_counterexample:
  "kept_rows iso_date no_valid_rows_frame = []
   \<and> load ascii_lower iso_date dec_float no_valid_rows_frame = Inr []
   \<and> category_sum [] = []
   \<and> zero_total_pie (map snd (category_sum []))
   \<and> run zero_total_pie ascii_lower iso_date dec_float no_valid_rows_frame = Inl PieError"
proof -
  have c: "category_sum [] = []"
    by (simp add: category_sum_def expense_df_def groupby_sum_def neg_def sort_values_def)
  have p: "zero_total_pie (map snd (category_sum []))" by (simp add: c zero_total_pie_def)
  have r: "run zero_total_pie ascii_lower iso_date dec_float no_valid_rows_frame = Inl PieError"
    using p by (simp add: run_def load_no_valid_rows)
  from kept_none load_no_valid_rows c p r show ?thesis by (intro conjI)
qed



text \<open>
  C6 (as amended). The loader drops a row exactly when some column of the input, required
  or extra, has a missing value in that row, or when its Date does not parse. The rows it
  keeps stay in their order, and a ledger row takes its date, description and amount from
  the Date, Description and Amount cells alone.
\<close>

theorem load_keeps_rows_without_missing_values:
  assumes "load lw td pf raw = Inr df"
  shows "kept_rows td raw =
           filter (\<lambda>r. list_all (\<lambda>c. r c \<noteq> NA) (columns raw)
                    \<and> td (map (\<lambda>r. r ''Date'') (rows (dropna raw))) (r ''Date'') \<noteq> None)
             (rows raw)
         \<and> list_all2 (\<lambda>r t.
               td (map (\<lambda>r. r ''Date'') (rows (dropna raw))) (r ''Date'') = Some (Date t)
               \<and> r ''Description'' = Str (Description t)
               \<and> astype_float pf (r ''Amount'') = Inr (Amount t)) (kept_rows td raw) df"
  using kept_rows_filter load_rows[OF assms] by (rule conjI)

theorem load_keeps_rows_without_missing_values_witness:
  "load ascii_lower iso_date dec_float sample_frame = Inr sample_ledger
   \<and> length (kept_rows iso_date sample_frame) = length sample_ledger
   \<and> length sample_ledger = 5"
proof -
  note t = load_keeps_rows_without_missing_values [OF load_sample, THEN conjunct2]
  have "length (kept_rows iso_date sample_frame) = length sample_ledger"
    using t by (rule list_all2_lengthD)
  moreover have "length sample_ledger = 5" by (simp add: sample_ledger_def)
  ultimately show ?thesis using load_sample by (intro conjI)
qed

text \<open>
  C6 as it was stated fails: the one row of \<open>notes_frame\<close> has its Date, Description and
  Amount, its Date parses, only the extra column \<^verbatim>\<open>Notes\<close> is empty, and line 14 drops it.
\<close>

theorem extra_column_counterexample:
  "rows notes_frame = [notes_row]
   \<and> (notes_row ''Date'' \<noteq> NA \<and> notes_row ''Description'' \<noteq> NA \<and> notes_row ''Amount'' \<noteq> NA
      \<and> iso_date [notes_row ''Date''] (notes_row ''Date'') = Some (2024, 1, 5)
      \<and> notes_row ''Notes'' = NA
      \<and> load ascii_lower iso_date dec_float notes_frame = Inr [])"
proof (rule conjI)
  show "rows notes_frame = [notes_row]" by (simp add: notes_frame_def)
  show "notes_row ''Date'' \<noteq> NA \<and> notes_row ''Description'' \<noteq> NA \<and> notes_row ''Amount'' \<noteq> NA
      \<and> iso_date [notes_row ''Date''] (notes_row ''Date'') = Some (2024, 1, 5)
      \<and> notes_row ''Notes'' = NA
      \<and> load ascii_lower iso_date dec_float notes_frame = Inr []"
    by code_simp
qed

text \<open>
  C7 (as amended). For an input that lacks one of the columns Date, Description, Amount the
  run fails and yields nothing. The error is the \<^verbatim>\<open>KeyError\<close> of Date when Date is absent,
  and of Amount when Date is present and Amount is absent; when only Description is absent
  and the amount of every row kept converts, it is the \<^verbatim>\<open>KeyError\<close> of Description.
\<close>

theorem missing_column_raises:
  assumes "\<not> {''Date'', ''Description'', ''Amount''} \<subseteq> set (columns raw)"
  shows "(\<exists>e. run pie lw td pf raw = Inl e)
    \<and> (''Date'' \<notin> set (columns raw) \<longrightarrow> run pie lw td pf raw = Inl (KeyError ''Date''))
    \<and> (''Date'' \<in> set (columns raw) \<and> ''Amount'' \<notin> set (columns raw)
         \<longrightarrow> run pie lw td pf raw = Inl (KeyError ''Amount''))
    \<and> (''Date'' \<in> set (columns raw) \<and> ''Amount'' \<in> set (columns raw)
        \<and> (\<forall>r\<in>set (kept_rows td raw). \<exists>x. astype_float pf (r ''Amount'') = Inr x)
         \<longrightarrow> run pie lw td pf raw = Inl (KeyError ''Description''))"
proof -
  have cols: "columns (dropna raw) = columns raw" by (simp add: dropna_def)
  define dated where "dated = concat (map (\<lambda>r. case td (map (\<lambda>r. r ''Date'') (rows (dropna raw)))
      (r ''Date'') of None \<Rightarrow> [] | Some d \<Rightarrow> [(r, d)]) (rows (dropna raw)))"
  have dated: "parse_dates td (dropna raw) = Inr dated" if "''Date'' \<in> set (columns raw)"
    using that by (simp add: parse_dates_def cols Let_def dated_def)
  have d: "run pie lw td pf raw = Inl (KeyError ''Date'')" if "''Date'' \<notin> set (columns raw)"
    using that by (simp add: run_def load_def parse_dates_def cols)
  have a: "run pie lw td pf raw = Inl (KeyError ''Amount'')"
    if "''Date'' \<in> set (columns raw)" "''Amount'' \<notin> set (columns raw)"
    using that dated by (simp add: run_def load_def)
  have c: "run pie lw td pf raw = Inl (KeyError ''Description'') \<or> (\<exists>s. run pie lw td pf raw = Inl (ValueError s))"
    if "''Date'' \<in> set (columns raw)" "''Amount'' \<in> set (columns raw)"
  proof (cases "mapM (\<lambda>rd. astype_float pf (fst rd ''Amount'')) dated")
    case (Inr amounts)
    from assms that have "''Description'' \<notin> set (columns raw)" by auto
    with Inr dated[OF that(1)] that have "run pie lw td pf raw = Inl (KeyError ''Description'')"
      by (simp add: run_def load_def)
    then show ?thesis by simp
  next
    case (Inl e)
    with dated[OF that(1)] that have l: "load lw td pf raw = Inl e" by (simp add: load_def)
    from mapM_InlD[OF Inl] obtain rd where "rd \<in> set dated"
      "astype_float pf (fst rd ''Amount'') = Inl e" by blast
    from astype_float_error[OF this(2)] l load_no_NaN_amount[of lw td pf raw]
    obtain s where "e = ValueError s" by auto
    with l show ?thesis by (simp add: run_def)
  qed
  have k: "run pie lw td pf raw = Inl (KeyError ''Description'')"
    if "''Date'' \<in> set (columns raw)" "''Amount'' \<in> set (columns raw)"
      and ok: "\<forall>r\<in>set (kept_rows td raw). \<exists>x. astype_float pf (r ''Amount'') = Inr x"
  proof (cases "mapM (\<lambda>rd. astype_float pf (fst rd ''Amount'')) dated")
    case (Inr amounts)
    from assms that have "''Description'' \<notin> set (columns raw)" by auto
    with Inr dated[OF that(1)] that show ?thesis by (simp add: run_def load_def)
  next
    case (Inl e)
    from mapM_InlD[OF Inl] obtain rd where rd: "rd \<in> set dated"
      "astype_float pf (fst rd ''Amount'') = Inl e" by blast
    have "set (kept_rows td raw) = fst ` set dated"
      using parse_dates_kept(1)[OF dated[OF that(1)], symmetric] by simp
    with rd(1) have "fst rd \<in> set (kept_rows td raw)" by simp
    with ok rd(2) show ?thesis by auto
  qed
  from assms d a c k show ?thesis by blast
qed

theorem missing_column_raises_witness:
  "\<not> {''Date'', ''Description'', ''Amount''} \<subseteq> set (columns description_missing_frame)
   \<and> ''Date'' \<in> set (columns description_missing_frame)
   \<and> ''Amount'' \<in> set (columns description_missing_frame)
   \<and> kept_rows iso_date description_missing_frame =
        [row [(''Date'', Str ''2024-01-05''), (''Amount'', Num (- 450))]]
   \<and> astype_float dec_float
        (row [(''Date'', Str ''2024-01-05''), (''Amount'', Num (- 450))] ''Amount'') = Inr (- 450)
   \<and> run zero_total_pie ascii_lower iso_date dec_float description_missing_frame = Inl (KeyError ''Description'')"
proof -
  have h: "\<not> {''Date'', ''Description'', ''Amount''} \<subseteq> set (columns description_missing_frame)"
    by (simp add: description_missing_frame_def)
  have c: "''Date'' \<in> set (columns description_missing_frame)"
    "''Amount'' \<in> set (columns description_missing_frame)"
    by (simp_all add: description_missing_frame_def)
  have v: "astype_float dec_float
      (row [(''Date'', Str ''2024-01-05''), (''Amount'', Num (- 450))] ''Amount'') = Inr (- 450)"
    by (simp add: row_def)
  then have ok: "\<forall>r\<in>set (kept_rows iso_date description_missing_frame).
         \<exists>x. astype_float dec_float (r ''Amount'') = Inr x"
    by (simp add: kept_description_missing)
  note t = missing_column_raises [where raw = description_missing_frame and pie = zero_total_pie
    and lw = ascii_lower and td = iso_date and pf = dec_float, OF h, THEN conjunct2,
    THEN conjunct2, THEN conjunct2, THEN mp]
  have "run zero_total_pie ascii_lower iso_date dec_float description_missing_frame = Inl (KeyError ''Description'')"
    using c ok by (intro t conjI)
  with h c kept_description_missing v show ?thesis by (intro conjI)
qed

text \<open>
  C7 as it was stated fails: \<open>no_description_frame\<close> lacks the Description column, and the
  run ends with the \<^verbatim>\<open>ValueError\<close> of the amount \<^verbatim>\<open>abc\<close>, raised at line 19 before line 40
  looks the Description column up: an error about a value and not about the columns.
\<close>

theorem missing_description_counterexample:
  "''Description'' \<notin> set (columns no_description_frame)
   \<and> run zero_total_pie ascii_lower iso_date dec_float no_description_frame = Inl (ValueError ''abc'')"
  by code_simp

text \<open>
  C8. For every row of the ledger, Type is Income if and only if the amount is strictly
  positive; a row with amount 0 is typed Expense, and there is no third type.
\<close>

theorem type_income_iff:
  assumes "load lw td pf raw = Inr df" and "r \<in> set df"
  shows "(Type r = ''Income'' \<longleftrightarrow> Amount r > 0)
     \<and> (Amount r = 0 \<longrightarrow> Type r = ''Expense'')
     \<and> (Type r = ''Income'' \<or> Type r = ''Expense'')"
  using load_Type[OF assms] by (simp add: type_of_amount_def)

theorem type_income_iff_witness:
  "load ascii_lower iso_date dec_float sample_frame = Inr sample_ledger
   \<and> sample_ledger ! 3 \<in> set sample_ledger
   \<and> Amount (sample_ledger ! 3) = 0 \<and> Type (sample_ledger ! 3) = ''Expense''"
proof -
  have m: "sample_ledger ! 3 \<in> set sample_ledger" by (simp add: sample_ledger_def)
  have z: "Amount (sample_ledger ! 3) = 0" by (simp add: sample_ledger_def)
  note t = type_income_iff [OF load_sample m, THEN conjunct2, THEN conjunct1, THEN mp, OF z]
  from load_sample m z t show ?thesis by (intro conjI)
qed



end
